theory Spec2Isabelle
  imports Complex_Main "HOL-Library.Product_Lexorder" "HOL-Library.Sublist"
begin

section \<open>JavaScript values as the handlers see them\<close>

text \<open>
  The handlers of \<^verbatim>\<open>carry.js\<close> and \<^verbatim>\<open>airports.js\<close> read request fields that hold
  arbitrary JSON, and coerce them with \<^verbatim>\<open>Number\<close>, \<^verbatim>\<open>String\<close>, \<^verbatim>\<open>||\<close>, \<^verbatim>\<open>??\<close> and
  \<^verbatim>\<open>== null\<close>. A JavaScript number is \<open>NaN\<close>, an infinity, or a finite value,
  carried here as the rational it denotes (the sign of zero is dropped: no handler
  can see it). An array or a plain object is carried as the text its \<^verbatim>\<open>toString\<close>
  gives, which is all these coercions look at. Strings are ASCII text, one \<open>char\<close> per
  character.
\<close>

datatype jsnum = NaN | PosInf | NegInf | Fin rat

datatype jsval =
    JUndefined
  | JNull
  | JBool bool
  | JNum jsnum
  | JStr string
  | JObj string

text \<open>
  What the code takes from outside: the helpers \<^verbatim>\<open>toInt\<close>, \<^verbatim>\<open>safeTrim\<close> and
  \<^verbatim>\<open>safeJsonParse\<close> that the host passes in through \<^verbatim>\<open>opts\<close> (their source is not
  part of the two modules), and the three conversions between text and numbers of
  the language itself. They are parameters of every handler.
  \<^item> \<open>toInt\<close> is applied to the \<^verbatim>\<open>:id\<close> path segment and its result is tested with
    \<^verbatim>\<open>!id\<close> before any other use, so a result that is not a number counts as \<open>0\<close>.
  \<^item> \<open>safeTrim\<close> gives a string, empty when there is nothing to trim.
  \<^item> \<open>safeJsonParse\<close> gives the parsed document (kept as opaque text) or nothing.
  \<^item> \<open>strToNumber\<close> is \<^verbatim>\<open>Number\<close> on a string, \<open>numToString\<close> is \<^verbatim>\<open>String\<close> on a
    number, \<open>parseInt10\<close> is \<^verbatim>\<open>parseInt(s, 10)\<close>.
\<close>

record env =
  toInt :: "string \<Rightarrow> int"
  safeTrim :: "jsval \<Rightarrow> string"
  safeJsonParse :: "string option \<Rightarrow> string option"
  strToNumber :: "string \<Rightarrow> jsnum"
  numToString :: "jsnum \<Rightarrow> string"
  parseInt10 :: "string \<Rightarrow> jsnum"

fun truthy :: "jsval \<Rightarrow> bool" where
  "truthy JUndefined = False"
| "truthy JNull = False"
| "truthy (JBool b) = b"
| "truthy (JNum NaN) = False"
| "truthy (JNum (Fin r)) = (r \<noteq> 0)"
| "truthy (JNum _) = True"
| "truthy (JStr s) = (s \<noteq> [])"
| "truthy (JObj _) = True"

text \<open>\<^verbatim>\<open>v == null\<close>\<close>

fun is_nullish :: "jsval \<Rightarrow> bool" where
  "is_nullish JUndefined = True"
| "is_nullish JNull = True"
| "is_nullish _ = False"

text \<open>\<^verbatim>\<open>a || b\<close> and \<^verbatim>\<open>a ?? b\<close>\<close>

definition js_or :: "jsval \<Rightarrow> jsval \<Rightarrow> jsval" where
  "js_or a b = (if truthy a then a else b)"

definition js_coalesce :: "jsval \<Rightarrow> jsval \<Rightarrow> jsval" where
  "js_coalesce a b = (if is_nullish a then b else a)"

fun String_js :: "env \<Rightarrow> jsval \<Rightarrow> string" where
  "String_js e JUndefined = ''undefined''"
| "String_js e JNull = ''null''"
| "String_js e (JBool b) = (if b then ''true'' else ''false'')"
| "String_js e (JNum n) = numToString e n"
| "String_js e (JStr s) = s"
| "String_js e (JObj s) = s"

fun Number_js :: "env \<Rightarrow> jsval \<Rightarrow> jsnum" where
  "Number_js e JUndefined = NaN"
| "Number_js e JNull = Fin 0"
| "Number_js e (JBool b) = (if b then Fin 1 else Fin 0)"
| "Number_js e (JNum n) = n"
| "Number_js e (JStr s) = strToNumber e s"
| "Number_js e (JObj s) = strToNumber e s"

text \<open>\<^verbatim>\<open>Number.isFinite\<close>, \<^verbatim>\<open>Math.round\<close> (to the nearest integer, a half goes up),
  \<^verbatim>\<open>Math.max\<close> and \<^verbatim>\<open>Math.min\<close> (\<open>NaN\<close> wins over everything).\<close>

fun isFinite :: "jsnum \<Rightarrow> bool" where
  "isFinite (Fin r) = True"
| "isFinite _ = False"

fun Math_round :: "jsnum \<Rightarrow> jsnum" where
  "Math_round (Fin r) = Fin (of_int \<lfloor>r + 1 / 2\<rfloor>)"
| "Math_round n = n"

fun Math_max :: "jsnum \<Rightarrow> jsnum \<Rightarrow> jsnum" where
  "Math_max NaN _ = NaN"
| "Math_max _ NaN = NaN"
| "Math_max PosInf _ = PosInf"
| "Math_max _ PosInf = PosInf"
| "Math_max NegInf b = b"
| "Math_max a NegInf = a"
| "Math_max (Fin a) (Fin b) = Fin (max a b)"

fun Math_min :: "jsnum \<Rightarrow> jsnum \<Rightarrow> jsnum" where
  "Math_min NaN _ = NaN"
| "Math_min _ NaN = NaN"
| "Math_min NegInf _ = NegInf"
| "Math_min _ NegInf = NegInf"
| "Math_min PosInf b = b"
| "Math_min a PosInf = a"
| "Math_min (Fin a) (Fin b) = Fin (min a b)"

text \<open>\<^verbatim>\<open>s.trim()\<close> removes white space and line ends at both ends;
  \<^verbatim>\<open>s.toLowerCase()\<close> maps \<open>A\<close>..\<open>Z\<close> to \<open>a\<close>..\<open>z\<close>.\<close>

definition js_space :: "char \<Rightarrow> bool" where
  "js_space c = (c \<in> {CHR 0x09, CHR 0x0A, CHR 0x0B, CHR 0x0C, CHR 0x0D, CHR '' ''})"

definition js_trim :: "string \<Rightarrow> string" where
  "js_trim s = rev (dropWhile js_space (rev (dropWhile js_space s)))"

definition lower_char :: "char \<Rightarrow> char" where
  "lower_char c =
     (let n = (of_char c :: nat) in if 65 \<le> n \<and> n \<le> 90 then char_of (n + 32) else c)"

definition toLowerCase :: "string \<Rightarrow> string" where
  "toLowerCase s = map lower_char s"

section \<open>The carry module: tables\<close>

text \<open>
  One record per table of \<^verbatim>\<open>carry.js\<close>, a column that may hold NULL as an option.
  A table is the list of its rows in rowid order. The REAL columns hold finite
  numbers. The handlers never remove a row, so the next AUTOINCREMENT id is one
  more than the largest id of the table (1 in an empty table). A handler runs from
  its first statement to its answer with no other request in between, and a
  statement fails only where the handler itself can make it fail (NULL bound to a
  NOT NULL column, a LIMIT that is not a whole number); failures of the storage
  itself are left out.
\<close>

record listing_row =
  l_id :: int
  l_user_id :: int
  l_role :: string
  l_from_country :: "string option"
  l_from_city :: "string option"
  l_to_country :: "string option"
  l_to_city :: "string option"
  l_travel_date :: "string option"
  l_arrival_date :: "string option"
  l_available_weight :: "rat option"
  l_item_type :: "string option"
  l_description :: "string option"
  l_reward_amount :: "rat option"
  l_currency :: "string option"
  l_status :: "string option"
  l_is_active :: "int option"
  l_data_json :: "string option"
  l_created_at :: "string option"
  l_updated_at :: "string option"

record request_row =
  r_id :: int
  r_listing_id :: int
  r_requester_id :: int
  r_status :: "string option"
  r_created_at :: "string option"

record message_row =
  m_id :: int
  m_listing_id :: int
  m_sender_id :: int
  m_message :: string
  m_created_at :: "string option"

record review_row =
  v_id :: int
  v_listing_id :: int
  v_reviewer_id :: int
  v_reviewed_user_id :: jsnum
  v_rating :: jsnum
  v_comment :: "string option"
  v_created_at :: "string option"

record db =
  carry_listings :: "listing_row list"
  carry_requests :: "request_row list"
  carry_messages :: "message_row list"
  carry_reviews :: "review_row list"

definition next_id :: "int list \<Rightarrow> int" where
  "next_id ids = fold max ids 0 + 1"

text \<open>\<^verbatim>\<open>SELECT ... WHERE id=?\<close> through \<^verbatim>\<open>get\<close>: the first row with that id, if any.\<close>

definition get_listing :: "db \<Rightarrow> int \<Rightarrow> listing_row option" where
  "get_listing d i = find (\<lambda>r. l_id r = i) (carry_listings d)"

definition get_request :: "db \<Rightarrow> int \<Rightarrow> request_row option" where
  "get_request d i = find (\<lambda>r. r_id r = i) (carry_requests d)"

definition get_message :: "db \<Rightarrow> int \<Rightarrow> message_row option" where
  "get_message d i = find (\<lambda>r. m_id r = i) (carry_messages d)"

text \<open>\<^verbatim>\<open>SELECT ... FROM carry_listings WHERE id=? AND is_active=1\<close>\<close>

definition get_active_listing :: "db \<Rightarrow> int \<Rightarrow> listing_row option" where
  "get_active_listing d i =
     find (\<lambda>r. l_id r = i \<and> l_is_active r = Some 1) (carry_listings d)"

text \<open>\<^verbatim>\<open>SELECT id, status FROM carry_requests WHERE listing_id=? AND requester_id=? LIMIT 1\<close>\<close>

definition get_existing :: "db \<Rightarrow> int \<Rightarrow> int \<Rightarrow> request_row option" where
  "get_existing d lid uid =
     find (\<lambda>r. r_listing_id r = lid \<and> r_requester_id r = uid) (carry_requests d)"

text \<open>\<^verbatim>\<open>UPDATE ... WHERE id=?\<close>: every row with that id is rewritten.\<close>

definition update_listings :: "int \<Rightarrow> (listing_row \<Rightarrow> listing_row) \<Rightarrow> db \<Rightarrow> db" where
  "update_listings i f d =
     d\<lparr>carry_listings := map (\<lambda>r. if l_id r = i then f r else r) (carry_listings d)\<rparr>"

definition update_requests :: "int \<Rightarrow> (request_row \<Rightarrow> request_row) \<Rightarrow> db \<Rightarrow> db" where
  "update_requests i f d =
     d\<lparr>carry_requests := map (\<lambda>r. if r_id r = i then f r else r) (carry_requests d)\<rparr>"

section \<open>The carry module: requests and responses\<close>

text \<open>
  A request as a handler reads it: the \<^verbatim>\<open>:id\<close> path segment, the caller that
  \<^verbatim>\<open>authRequired\<close> has put in \<^verbatim>\<open>req.user.id\<close>, the answer of \<^verbatim>\<open>isAdminReq(req)\<close>, the
  fields of \<^verbatim>\<open>req.body\<close> (\<open>JUndefined\<close> for a field that is not there), the text
  \<^verbatim>\<open>JSON.stringify(req.body || {})\<close>, and the value of \<^verbatim>\<open>datetime('now')\<close> while the
  request is served.
\<close>

record req =
  params_id :: string
  user_id :: int
  isAdminReq :: bool
  body :: "string \<Rightarrow> jsval"
  body_json :: string
  now :: string

record mapped_listing =
  ml_id :: int
  ml_user_id :: int
  ml_role :: string
  ml_from_country :: string
  ml_from_city :: string
  ml_to_country :: string
  ml_to_city :: string
  ml_travel_date :: "string option"
  ml_arrival_date :: "string option"
  ml_available_weight :: "rat option"
  ml_item_type :: string
  ml_description :: string
  ml_reward_amount :: "rat option"
  ml_currency :: string
  ml_status :: string
  ml_is_active :: int
  ml_created_at :: "string option"
  ml_updated_at :: "string option"
  ml_data :: string
  ml_raw :: listing_row

datatype payload =
    P_ok
  | P_item mapped_listing
  | P_request int string
  | P_message "message_row option"

text \<open>\<open>Json p\<close> is \<^verbatim>\<open>res.json({ok: true, ...})\<close> (status 200), \<open>Error c m\<close> is
  \<^verbatim>\<open>res.status(c).json({error: m})\<close>.\<close>

datatype response = Json payload | Error nat string

text \<open>\<^verbatim>\<open>x || ""\<close>, \<^verbatim>\<open>x || null\<close> and \<^verbatim>\<open>x || d\<close> on a text column or a trimmed string.\<close>

definition or_empty :: "string option \<Rightarrow> string" where
  "or_empty x = (case x of None \<Rightarrow> [] | Some s \<Rightarrow> s)"

definition or_null :: "string option \<Rightarrow> string option" where
  "or_null x = (case x of None \<Rightarrow> None | Some s \<Rightarrow> if s = [] then None else Some s)"

definition or_default :: "string option \<Rightarrow> string \<Rightarrow> string" where
  "or_default x d = (case x of None \<Rightarrow> d | Some s \<Rightarrow> if s = [] then d else s)"

definition mapListing :: "env \<Rightarrow> listing_row \<Rightarrow> mapped_listing" where
  "mapListing e row =
     \<lparr> ml_id = l_id row,
       ml_user_id = l_user_id row,
       ml_role = l_role row,
       ml_from_country = or_empty (l_from_country row),
       ml_from_city = or_empty (l_from_city row),
       ml_to_country = or_empty (l_to_country row),
       ml_to_city = or_empty (l_to_city row),
       ml_travel_date = or_null (l_travel_date row),
       ml_arrival_date = or_null (l_arrival_date row),
       ml_available_weight = l_available_weight row,
       ml_item_type = or_empty (l_item_type row),
       ml_description = or_empty (l_description row),
       ml_reward_amount = l_reward_amount row,
       ml_currency = or_default (l_currency row) ''USD'',
       ml_status = or_default (l_status row) ''open'',
       ml_is_active = (case l_is_active row of None \<Rightarrow> 0 | Some n \<Rightarrow> n),
       ml_created_at = or_null (l_created_at row),
       ml_updated_at = or_null (l_updated_at row),
       ml_data = (case safeJsonParse e (l_data_json row) of None \<Rightarrow> ''{}'' | Some t \<Rightarrow> t),
       ml_raw = row \<rparr>"


definition canEdit :: "int \<Rightarrow> int \<Rightarrow> req \<Rightarrow> bool" where
  "canEdit reqUserId rowUserId rq =
     (if reqUserId = 0 then False
      else if reqUserId = rowUserId then True
      else isAdminReq rq)"

section \<open>The carry module: match requests\<close>

text \<open>\<^verbatim>\<open>PATCH /api/carry/requests/:id/accept\<close>\<close>

definition accept_request :: "env \<Rightarrow> req \<Rightarrow> db \<Rightarrow> response \<times> db" where
  "accept_request e rq d =
     (let requestId = toInt e (params_id rq) in
      if requestId = 0 then (Error 400 ''Bad id'', d)
      else case get_request d requestId of
        None \<Rightarrow> (Error 404 ''Not found'', d)
      | Some reqRow \<Rightarrow>
         (case get_listing d (r_listing_id reqRow) of
            None \<Rightarrow> (Error 404 ''Listing missing'', d)
          | Some listing \<Rightarrow>
              if \<not> canEdit (user_id rq) (l_user_id listing) rq then (Error 403 ''Forbidden'', d)
              else
                let d1 = update_requests requestId (\<lambda>r. r\<lparr>r_status := Some ''accepted''\<rparr>) d;
                    d2 = update_listings (l_id listing)
                           (\<lambda>r. r\<lparr>l_status := Some ''matched'', l_updated_at := Some (now rq)\<rparr>) d1
                in (Json P_ok, d2)))"

text \<open>\<^verbatim>\<open>PATCH /api/carry/requests/:id/reject\<close>\<close>

definition reject_request :: "env \<Rightarrow> req \<Rightarrow> db \<Rightarrow> response \<times> db" where
  "reject_request e rq d =
     (let requestId = toInt e (params_id rq) in
      if requestId = 0 then (Error 400 ''Bad id'', d)
      else case get_request d requestId of
        None \<Rightarrow> (Error 404 ''Not found'', d)
      | Some reqRow \<Rightarrow>
         (case get_listing d (r_listing_id reqRow) of
            None \<Rightarrow> (Error 404 ''Listing missing'', d)
          | Some listing \<Rightarrow>
              if \<not> canEdit (user_id rq) (l_user_id listing) rq then (Error 403 ''Forbidden'', d)
              else (Json P_ok, update_requests requestId (\<lambda>r. r\<lparr>r_status := Some ''rejected''\<rparr>) d)))"

text \<open>\<^verbatim>\<open>POST /api/carry/listings/:id/request\<close>\<close>

definition create_request :: "env \<Rightarrow> req \<Rightarrow> db \<Rightarrow> response \<times> db" where
  "create_request e rq d =
     (let listingId = toInt e (params_id rq) in
      if listingId = 0 then (Error 400 ''Bad id'', d)
      else case get_active_listing d listingId of
        None \<Rightarrow> (Error 404 ''Not found'', d)
      | Some listing \<Rightarrow>
          if l_user_id listing = user_id rq
            then (Error 400 ''You can't request your own listing'', d)
          else if l_status listing \<noteq> Some ''open'' then (Error 400 ''Listing not open'', d)
          else
            (case get_existing d listingId (user_id rq) of
               None \<Rightarrow>
                 (let i = next_id (map r_id (carry_requests d));
                      row = \<lparr> r_id = i, r_listing_id = listingId, r_requester_id = user_id rq,
                              r_status = Some ''pending'', r_created_at = Some (now rq) \<rparr>
                  in (Json (P_request i ''pending''),
                      d\<lparr>carry_requests := carry_requests d @ [row]\<rparr>))
             | Some existing \<Rightarrow>
                 if r_id existing \<noteq> 0 \<and> r_status existing \<noteq> Some ''cancelled''
                   then (Error 400 ''Already requested'', d)
                 else if r_id existing \<noteq> 0 then
                   (Json (P_request (r_id existing) ''pending''),
                    update_requests (r_id existing) (\<lambda>r. r\<lparr>r_status := Some ''pending''\<rparr>) d)
                 else
                   (let i = next_id (map r_id (carry_requests d));
                        row = \<lparr> r_id = i, r_listing_id = listingId, r_requester_id = user_id rq,
                                r_status = Some ''pending'', r_created_at = Some (now rq) \<rparr>
                    in (Json (P_request i ''pending''),
                        d\<lparr>carry_requests := carry_requests d @ [row]\<rparr>))))"

section \<open>The carry module: listings\<close>

text \<open>\<^verbatim>\<open>x == null ? null : Number(x)\<close> followed by \<^verbatim>\<open>Number.isFinite(n) ? n : null\<close>:
  the value bound to a REAL column.\<close>

definition finite_or_null :: "env \<Rightarrow> jsval \<Rightarrow> rat option" where
  "finite_or_null e v =
     (if is_nullish v then None
      else case Number_js e v of Fin r \<Rightarrow> Some r | _ \<Rightarrow> None)"


text \<open>\<^verbatim>\<open>COALESCE(NULLIF(?,''), col)\<close> and \<^verbatim>\<open>COALESCE(?, col)\<close>\<close>

definition coalesce_text :: "string \<Rightarrow> string option \<Rightarrow> string option" where
  "coalesce_text s col = (if s = [] then col else Some s)"

definition coalesce :: "'a option \<Rightarrow> 'a option \<Rightarrow> 'a option" where
  "coalesce x col = (case x of None \<Rightarrow> col | Some y \<Rightarrow> Some y)"

text \<open>\<^verbatim>\<open>PATCH /api/carry/listings/:id\<close>\<close>

definition update_listing :: "env \<Rightarrow> req \<Rightarrow> db \<Rightarrow> response \<times> db" where
  "update_listing e rq d =
     (let i = toInt e (params_id rq) in
      if i = 0 then (Error 400 ''Bad id'', d)
      else case get_listing d i of
        None \<Rightarrow> (Error 404 ''Not found'', d)
      | Some row \<Rightarrow>
          if \<not> canEdit (user_id rq) (l_user_id row) rq then (Error 403 ''Forbidden'', d)
          else
            (let d' = update_listings i
                   (\<lambda>r. r\<lparr> l_from_country := coalesce_text (safeTrim e (body rq ''from_country'')) (l_from_country r),
                           l_from_city := coalesce_text (safeTrim e (body rq ''from_city'')) (l_from_city r),
                           l_to_country := coalesce_text (safeTrim e (body rq ''to_country'')) (l_to_country r),
                           l_to_city := coalesce_text (safeTrim e (body rq ''to_city'')) (l_to_city r),
                           l_travel_date := coalesce_text (safeTrim e (body rq ''travel_date'')) (l_travel_date r),
                           l_arrival_date := coalesce_text (safeTrim e (body rq ''arrival_date'')) (l_arrival_date r),
                           l_available_weight :=
                             coalesce (finite_or_null e (body rq ''available_weight'')) (l_available_weight r),
                           l_item_type := coalesce_text (safeTrim e (body rq ''item_type'')) (l_item_type r),
                           l_description := coalesce_text (safeTrim e (body rq ''description'')) (l_description r),
                           l_reward_amount :=
                             coalesce (finite_or_null e (body rq ''reward_amount'')) (l_reward_amount r),
                           l_currency := coalesce_text (safeTrim e (body rq ''currency'')) (l_currency r),
                           l_data_json := coalesce (Some (body_json rq)) (l_data_json r),
                           l_updated_at := Some (now rq) \<rparr>) d
             in case get_listing d' i of
                  None \<Rightarrow> (Error 500 ''Failed to update'', d')
                | Some updated \<Rightarrow> (Json (P_item (mapListing e updated)), d')))"

text \<open>\<^verbatim>\<open>DELETE /api/carry/listings/:id\<close>\<close>

definition delete_listing :: "env \<Rightarrow> req \<Rightarrow> db \<Rightarrow> response \<times> db" where
  "delete_listing e rq d =
     (let i = toInt e (params_id rq) in
      if i = 0 then (Error 400 ''Bad id'', d)
      else case get_listing d i of
        None \<Rightarrow> (Error 404 ''Not found'', d)
      | Some row \<Rightarrow>
          if \<not> canEdit (user_id rq) (l_user_id row) rq then (Error 403 ''Forbidden'', d)
          else (Json P_ok,
                update_listings i (\<lambda>r. r\<lparr>l_is_active := Some 0, l_updated_at := Some (now rq)\<rparr>) d))"

section \<open>The carry module: messages and reviews\<close>

text \<open>\<^verbatim>\<open>POST /api/carry/listings/:id/messages\<close>\<close>

definition post_message :: "env \<Rightarrow> req \<Rightarrow> db \<Rightarrow> response \<times> db" where
  "post_message e rq d =
     (let listingId = toInt e (params_id rq) in
      if listingId = 0 then (Error 400 ''Bad id'', d)
      else
        let message = safeTrim e (body rq ''message'') in
        if message = [] then (Error 400 ''Missing message'', d)
        else
          let lastID = next_id (map m_id (carry_messages d));
              new = \<lparr> m_id = lastID, m_listing_id = listingId, m_sender_id = user_id rq,
                      m_message = message, m_created_at = Some (now rq) \<rparr>;
              d' = d\<lparr>carry_messages := carry_messages d @ [new]\<rparr>
          in (Json (P_message (get_message d' lastID)), d'))"

definition clampRating :: "env \<Rightarrow> jsval \<Rightarrow> jsnum option" where
  "clampRating e v =
     (let n = Number_js e v in
      if \<not> isFinite n then None
      else let x = Math_round n in Some (Math_max (Fin 1) (Math_min (Fin 5) x)))"

text \<open>
  \<^verbatim>\<open>POST /api/carry/listings/:id/review\<close>. The two columns that take a number are
  NOT NULL, and a \<open>NaN\<close> is bound as NULL: the insert then fails and the handler's
  \<^verbatim>\<open>catch\<close> answers 500.
\<close>

definition post_review :: "env \<Rightarrow> req \<Rightarrow> db \<Rightarrow> response \<times> db" where
  "post_review e rq d =
     (let listingId = toInt e (params_id rq) in
      if listingId = 0 then (Error 400 ''Bad id'', d)
      else case clampRating e (js_coalesce (body rq ''rating'') (body rq ''stars'')) of
        None \<Rightarrow> (Error 400 ''Bad rating'', d)
      | Some rating \<Rightarrow>
          if \<not> truthy (JNum rating) then (Error 400 ''Bad rating'', d)
          else
            let comment = or_null (Some (safeTrim e (body rq ''comment''))) in
            (case get_listing d listingId of
               None \<Rightarrow> (Error 404 ''Not found'', d)
             | Some listing \<Rightarrow>
                 let reviewed_user_id =
                       Number_js e (js_or (body rq ''reviewed_user_id'')
                                          (JNum (Fin (of_int (l_user_id listing)))))
                 in if reviewed_user_id = NaN \<or> rating = NaN then (Error 500 ''Failed'', d)
                    else
                      let new = \<lparr> v_id = next_id (map v_id (carry_reviews d)),
                                  v_listing_id = listingId,
                                  v_reviewer_id = user_id rq,
                                  v_reviewed_user_id = reviewed_user_id,
                                  v_rating = rating,
                                  v_comment = comment,
                                  v_created_at = Some (now rq) \<rparr>
                      in (Json P_ok, d\<lparr>carry_reviews := carry_reviews d @ [new]\<rparr>)))"

section \<open>The airports module\<close>

text \<open>
  The search reads eight columns of the \<^verbatim>\<open>airports\<close> table; the id column is never
  read and is left out. The table is filled from outside the module.
\<close>

record airport_row =
  a_iata :: "string option"
  a_icao :: "string option"
  a_name :: "string option"
  a_city :: "string option"
  a_country :: "string option"
  a_country_code :: "string option"
  a_lat :: "rat option"
  a_lon :: "rat option"

record search_req =
  query_q :: jsval
  query_limit :: jsval

text \<open>\<open>Found rows\<close> is \<^verbatim>\<open>res.json(rows)\<close> (status 200), \<open>Failed c m\<close> is
  \<^verbatim>\<open>res.status(c).json({error: m})\<close>.\<close>

datatype search_response = Found "airport_row list" | Failed nat string

text \<open>
  SQLite's \<^verbatim>\<open>text LIKE pattern\<close> with no ESCAPE clause: \<open>%\<close> in the pattern stands for
  any run of characters, \<open>_\<close> for any one character, and every other character for
  itself, upper and lower case taken as equal. The pattern is the first argument.
\<close>

fun like :: "string \<Rightarrow> string \<Rightarrow> bool" where
  "like [] s = (s = [])"
| "like (p # ps) s =
     (if p = CHR ''%'' then
        (like ps s \<or> (case s of [] \<Rightarrow> False | c # cs \<Rightarrow> like (p # ps) cs))
      else
        (case s of [] \<Rightarrow> False
         | c # cs \<Rightarrow> (p = CHR ''_'' \<or> lower_char p = lower_char c) \<and> like ps cs))"

text \<open>\<^verbatim>\<open>LOWER(COALESCE(col,''))\<close>; SQLite's \<^verbatim>\<open>LOWER\<close> folds \<open>A\<close>..\<open>Z\<close> only.\<close>

definition lower_col :: "string option \<Rightarrow> string" where
  "lower_col x = map lower_char (or_empty x)"

text \<open>The WHERE clause, every one of its five parameters being \<^verbatim>\<open>like\<close>.\<close>

definition matches :: "string \<Rightarrow> airport_row \<Rightarrow> bool" where
  "matches pat a =
     (like pat (lower_col (a_iata a)) \<or> like pat (lower_col (a_icao a)) \<or>
      like pat (lower_col (a_city a)) \<or> like pat (lower_col (a_name a)) \<or>
      like pat (lower_col (a_country a)))"

text \<open>The CASE expression of the ORDER BY clause, and its three sort terms.\<close>

definition rank :: "string \<Rightarrow> string \<Rightarrow> airport_row \<Rightarrow> nat" where
  "rank qLower starts a =
     (if lower_col (a_iata a) = qLower then 0
      else if like starts (lower_col (a_iata a)) then 1
      else if like starts (lower_col (a_city a)) then 2
      else if like starts (lower_col (a_name a)) then 3
      else 4)"

definition order_key :: "string \<Rightarrow> string \<Rightarrow> airport_row \<Rightarrow> nat \<times> nat \<times> nat" where
  "order_key qLower starts a =
     (rank qLower starts a, length (or_empty (a_iata a)), length (or_empty (a_city a)))"

text \<open>
  \<^verbatim>\<open>LIMIT ?\<close> with the number bound to it. A negative limit is no limit. A value
  that is not a whole number (a \<open>NaN\<close> is bound as NULL) makes the statement fail,
  which the handler's \<^verbatim>\<open>catch\<close> turns into a 500.
\<close>

fun sql_limit :: "jsnum \<Rightarrow> 'a list \<Rightarrow> 'a list option" where
  "sql_limit (Fin r) xs =
     (if of_int \<lfloor>r\<rfloor> \<noteq> r then None
      else if r < 0 then Some xs
      else Some (take (nat \<lfloor>r\<rfloor>) xs))"
| "sql_limit _ xs = None"

text \<open>The query text, \<^verbatim>\<open>const q = String(req.query.q || "").trim()\<close>.\<close>

definition search_text :: "env \<Rightarrow> search_req \<Rightarrow> string" where
  "search_text e sq = js_trim (String_js e (js_or (query_q sq) (JStr [])))"

text \<open>
  \<^verbatim>\<open>GET /api/airports/search\<close>. Rows that the ORDER BY terms do not tell apart
  come in table order.
\<close>

definition airport_search :: "env \<Rightarrow> search_req \<Rightarrow> airport_row list \<Rightarrow> search_response" where
  "airport_search e sq airports =
     (let q = search_text e sq;
          limit = Math_min (Fin 50)
                    (Math_max (Fin 5)
                       (parseInt10 e (String_js e (js_or (query_limit sq) (JStr ''20'')))))
      in if length q < 2 then Found []
         else
           let qLower = toLowerCase q;
               pat = ''%'' @ qLower @ ''%'';
               starts = qLower @ ''%''
           in case sql_limit limit
                     (sort_key (order_key qLower starts) (filter (matches pat) airports)) of
                None \<Rightarrow> Failed 500 ''search_failed''
              | Some rows \<Rightarrow> Found rows)"



section \<open>The three operations on a match request\<close>

datatype request_op = Create | Accept | Reject

fun run_request_op :: "request_op \<Rightarrow> env \<Rightarrow> req \<Rightarrow> db \<Rightarrow> response \<times> db" where
  "run_request_op Create e rq d = create_request e rq d"
| "run_request_op Accept e rq d = accept_request e rq d"
| "run_request_op Reject e rq d = reject_request e rq d"

section \<open>A host and sample data\<close>

text \<open>
  Modelled from the spec: the helpers \<^verbatim>\<open>toInt\<close>, \<^verbatim>\<open>safeTrim\<close> and \<^verbatim>\<open>safeJsonParse\<close>, which
  the host hands to both modules and whose source is not among the two files. The
  specification calls them "generic helpers for trimming strings, safely parsing
  JSON, and coercing values to integers": \<open>host_toInt\<close> reads an unsigned decimal
  integer and gives \<open>0\<close> for anything else, \<open>host_safeTrim\<close> trims a string and gives
  the empty string for any other value, \<open>host_safeJsonParse\<close> gives the document back
  and nothing for NULL or the empty text.
\<close>

definition is_digit :: "char \<Rightarrow> bool" where
  "is_digit c = (48 \<le> (of_char c :: nat) \<and> (of_char c :: nat) \<le> 57)"

definition decimal :: "string \<Rightarrow> nat" where
  "decimal s = foldl (\<lambda>n c. 10 * n + ((of_char c :: nat) - 48)) 0 s"

definition host_toInt :: "string \<Rightarrow> int" where
  "host_toInt s = (if s \<noteq> [] \<and> list_all is_digit s then int (decimal s) else 0)"

definition host_safeTrim :: "jsval \<Rightarrow> string" where
  "host_safeTrim v = (case v of JStr s \<Rightarrow> js_trim s | _ \<Rightarrow> [])"

definition host_safeJsonParse :: "string option \<Rightarrow> string option" where
  "host_safeJsonParse x = (case x of None \<Rightarrow> None | Some t \<Rightarrow> if t = [] then None else Some t)"

text \<open>
  The conversions of the language, on the texts and numbers the sample requests
  use: \<^verbatim>\<open>Number\<close> of a trimmed unsigned decimal integer is that integer, of blank text
  \<open>0\<close>, and of text with any other character \<open>NaN\<close> (as for \<^verbatim>\<open>"abc"\<close>); \<^verbatim>\<open>parseInt\<close>
  reads the leading digits; a number is printed by name when it is not finite and as
  its whole part otherwise. Signs, fractions and exponents in text are not covered.
\<close>

definition sample_strToNumber :: "string \<Rightarrow> jsnum" where
  "sample_strToNumber s =
     (let t = js_trim s in
      if t = [] then Fin 0
      else if list_all is_digit t then Fin (of_nat (decimal t))
      else NaN)"

definition sample_parseInt10 :: "string \<Rightarrow> jsnum" where
  "sample_parseInt10 s =
     (let t = takeWhile is_digit (dropWhile js_space s) in
      if t = [] then NaN else Fin (of_nat (decimal t)))"

fun digits :: "nat \<Rightarrow> nat \<Rightarrow> string" where
  "digits 0 n = []"
| "digits (Suc k) n =
     (if n < 10 then [char_of (48 + n)] else digits k (n div 10) @ [char_of (48 + n mod 10)])"

definition sample_numToString :: "jsnum \<Rightarrow> string" where
  "sample_numToString n =
     (case n of
        NaN \<Rightarrow> ''NaN''
      | PosInf \<Rightarrow> ''Infinity''
      | NegInf \<Rightarrow> ''-Infinity''
      | Fin r \<Rightarrow>
          (let k = nat \<bar>\<lfloor>r\<rfloor>\<bar> in (if r < 0 then ''-'' else []) @ digits (Suc k) k))"

definition host :: env where
  "host = \<lparr> toInt = host_toInt,
            safeTrim = host_safeTrim,
            safeJsonParse = host_safeJsonParse,
            strToNumber = sample_strToNumber,
            numToString = sample_numToString,
            parseInt10 = sample_parseInt10 \<rparr>"

text \<open>A request with an empty body, and one with a single field.\<close>

definition no_body :: "string \<Rightarrow> jsval" where
  "no_body k = JUndefined"

definition quoted :: "string \<Rightarrow> string" where
  "quoted s = CHR 0x22 # s @ [CHR 0x22]"

definition sample_req :: "string \<Rightarrow> int \<Rightarrow> req" where
  "sample_req pid uid =
     \<lparr> params_id = pid, user_id = uid, isAdminReq = False,
       body = no_body, body_json = ''{}'', now = ''2024-05-01 10:00:00'' \<rparr>"

definition with_field :: "string \<Rightarrow> jsval \<Rightarrow> string \<Rightarrow> req \<Rightarrow> req" where
  "with_field k v txt rq =
     rq\<lparr> body := (body rq)(k := v), body_json := ''{'' @ quoted k @ '':'' @ txt @ ''}'' \<rparr>"

text \<open>Listing 1 of user 1, as \<^verbatim>\<open>POST /api/carry/listings\<close> leaves it; a request of
  user 2 against it.\<close>

definition sample_listing :: listing_row where
  "sample_listing =
     \<lparr> l_id = 1, l_user_id = 1, l_role = ''traveler'',
       l_from_country = None, l_from_city = Some ''Paris'',
       l_to_country = None, l_to_city = Some ''Lagos'',
       l_travel_date = None, l_arrival_date = None, l_available_weight = None,
       l_item_type = None, l_description = None, l_reward_amount = None,
       l_currency = Some ''USD'', l_status = Some ''open'', l_is_active = Some 1,
       l_data_json = Some ''{}'', l_created_at = Some ''2024-04-01 09:00:00'',
       l_updated_at = Some ''2024-04-01 09:00:00'' \<rparr>"

definition sample_request :: "string \<Rightarrow> request_row" where
  "sample_request st =
     \<lparr> r_id = 1, r_listing_id = 1, r_requester_id = 2, r_status = Some st,
       r_created_at = Some ''2024-04-02 09:00:00'' \<rparr>"

definition sample_db :: "listing_row \<Rightarrow> request_row list \<Rightarrow> db" where
  "sample_db l rs =
     \<lparr> carry_listings = [l], carry_requests = rs, carry_messages = [], carry_reviews = [] \<rparr>"

text \<open>Three rows of the airports table: New York JFK, Ajaccio, and a made-up
  heliport whose city contains the letters \<open>jfk\<close>.\<close>

definition jfk :: airport_row where
  "jfk = \<lparr> a_iata = Some ''JFK'', a_icao = Some ''KJFK'',
           a_name = Some ''John F Kennedy International Airport'', a_city = Some ''New York'',
           a_country = Some ''United States'', a_country_code = Some ''US'',
           a_lat = Some (406413 / 10000), a_lon = Some (- 737781 / 10000) \<rparr>"

definition aja :: airport_row where
  "aja = \<lparr> a_iata = Some ''AJA'', a_icao = Some ''LFKJ'',
           a_name = Some ''Ajaccio Napoleon Bonaparte Airport'', a_city = Some ''Ajaccio'',
           a_country = Some ''France'', a_country_code = Some ''FR'',
           a_lat = Some (419239 / 10000), a_lon = Some (88029 / 10000) \<rparr>"


section \<open>Facts about the tables\<close>

lemma get_listing_id: "get_listing d i = Some l \<Longrightarrow> l_id l = i"
  by (auto simp: get_listing_def find_Some_iff)

lemma get_request_id: "get_request d i = Some r \<Longrightarrow> r_id r = i"
  by (auto simp: get_request_def find_Some_iff)

lemma find_update_same:
  "(\<And>r. key (f r) = key r) \<Longrightarrow>
   find (\<lambda>r. key r = i) (map (\<lambda>r. if key r = i then f r else r) xs)
     = map_option f (find (\<lambda>r. key r = i) xs)"
  by (induction xs) auto

lemma get_request_update_requests:
  "(\<And>r. r_id (f r) = r_id r) \<Longrightarrow>
   get_request (update_requests i f d) i = map_option f (get_request d i)"
  unfolding get_request_def update_requests_def
  using find_update_same [of r_id f i "carry_requests d"] by simp

lemma get_listing_update_listings:
  "(\<And>r. l_id (f r) = l_id r) \<Longrightarrow>
   get_listing (update_listings i f d) i = map_option f (get_listing d i)"
  unfolding get_listing_def update_listings_def
  using find_update_same [of l_id f i "carry_listings d"] by simp

lemma get_listing_update_requests [simp]:
  "get_listing (update_requests i f d) j = get_listing d j"
  by (simp add: get_listing_def update_requests_def)

lemma get_request_update_listings [simp]:
  "get_request (update_listings i f d) j = get_request d j"
  by (simp add: get_request_def update_listings_def)

lemma requests_update_listings [simp]:
  "carry_requests (update_listings i f d) = carry_requests d"
  by (simp add: update_listings_def)

lemma requests_update_requests:
  "carry_requests (update_requests i f d)
     = map (\<lambda>r. if r_id r = i then f r else r) (carry_requests d)"
  by (simp add: update_requests_def)

text \<open>The id that AUTOINCREMENT hands out is not in the table yet, so the row read
  back by that id is the row just inserted.\<close>

lemma fold_max_ge: "(x::int) \<in> set xs \<Longrightarrow> x \<le> fold max xs a"
proof (induction xs arbitrary: a)
  case Nil
  then show ?case by simp
next
  case (Cons y ys)
  have mono: "b \<le> fold max ys b" for b :: int
    by (induction ys arbitrary: b) (auto intro: order_trans [OF max.cobounded2])
  show ?case
  proof (cases "x = y")
    case True
    have "x \<le> max x a" by simp
    also have "\<dots> \<le> fold max ys (max x a)" by (rule mono)
    finally show ?thesis using True by simp
  next
    case False
    with Cons show ?thesis by simp
  qed
qed

lemma next_id_fresh: "next_id ids \<notin> set ids"
proof
  assume "next_id ids \<in> set ids"
  then have "next_id ids \<le> fold max ids 0" by (rule fold_max_ge)
  then show False by (simp add: next_id_def)
qed

lemma find_append_fresh:
  "\<forall>x \<in> set xs. \<not> P x \<Longrightarrow> P y \<Longrightarrow> find P (xs @ [y]) = Some y"
  by (induction xs) auto

section \<open>Accepting a match request\<close>

text \<open>
  Claim C1. An accept of an existing match request whose parent listing exists, by
  the owner of that listing or by an admin, answers \<^verbatim>\<open>{ok: true}\<close>; in the store it
  leaves, reading the request by its id gives status \<open>accepted\<close> and reading the
  parent listing by its id gives status \<open>matched\<close>. The caller is the non-zero user
  id that \<^verbatim>\<open>authRequired\<close> supplies, and the path segment is the id of the request.
\<close>

theorem accept_sets_request_and_listing:
  assumes rid: "toInt e (params_id rq) \<noteq> 0"
    and req: "get_request d (toInt e (params_id rq)) = Some r"
    and lst: "get_listing d (r_listing_id r) = Some l"
    and uid: "user_id rq \<noteq> 0"
    and own: "user_id rq = l_user_id l \<or> isAdminReq rq"
  shows "fst (accept_request e rq d) = Json P_ok \<and>
         map_option r_status (get_request (snd (accept_request e rq d)) (toInt e (params_id rq)))
           = Some (Some ''accepted'') \<and>
         map_option l_status (get_listing (snd (accept_request e rq d)) (r_listing_id r))
           = Some (Some ''matched'')"
proof -
  have ce: "canEdit (user_id rq) (l_user_id l) rq"
    using uid own by (auto simp: canEdit_def)
  have lid: "l_id l = r_listing_id r"
    using lst by (rule get_listing_id)
  let ?d1 = "update_requests (toInt e (params_id rq)) (\<lambda>r. r\<lparr>r_status := Some ''accepted''\<rparr>) d"
  let ?d2 = "update_listings (r_listing_id r)
               (\<lambda>r. r\<lparr>l_status := Some ''matched'', l_updated_at := Some (now rq)\<rparr>) ?d1"
  have run: "accept_request e rq d = (Json P_ok, ?d2)"
    using rid req lst ce lid by (simp add: accept_request_def Let_def)
  have a: "map_option r_status (get_request ?d2 (toInt e (params_id rq))) = Some (Some ''accepted'')"
    using req by (simp add: get_request_update_requests)
  have b: "map_option l_status (get_listing ?d2 (r_listing_id r)) = Some (Some ''matched'')"
    using lst by (simp add: get_listing_update_listings)
  show ?thesis
    using a b by (simp add: run)
qed

theorem accept_sets_request_and_listing_witness:
  "fst (accept_request host (sample_req ''1'' 1) (sample_db sample_listing [sample_request ''pending'']))
     = Json P_ok \<and>
   map_option r_status
     (get_request
        (snd (accept_request host (sample_req ''1'' 1)
                (sample_db sample_listing [sample_request ''pending''])))
        1) = Some (Some ''accepted'') \<and>
   map_option l_status
     (get_listing
        (snd (accept_request host (sample_req ''1'' 1)
                (sample_db sample_listing [sample_request ''pending''])))
        1) = Some (Some ''matched'')"
proof -
  let ?d = "sample_db sample_listing [sample_request ''pending'']"
  let ?rq = "sample_req ''1'' 1"
  have i: "toInt host (params_id ?rq) = 1" by code_simp
  have rid: "toInt host (params_id ?rq) \<noteq> 0" by (simp add: i)
  have req: "get_request ?d (toInt host (params_id ?rq)) = Some (sample_request ''pending'')"
    unfolding i by code_simp
  have li: "r_listing_id (sample_request ''pending'') = 1" by code_simp
  have lst: "get_listing ?d (r_listing_id (sample_request ''pending'')) = Some sample_listing"
    unfolding li by code_simp
  have uid: "user_id ?rq \<noteq> 0" by code_simp
  have own: "user_id ?rq = l_user_id sample_listing \<or> isAdminReq ?rq" by code_simp
  show ?thesis
    using accept_sets_request_and_listing [OF rid req lst uid own] by (simp add: i li)
qed

section \<open>Posting a message\<close>

text \<open>
  Claim C10. Posting a message needs a listing id that \<^verbatim>\<open>toInt\<close> accepts and a text
  that is not empty once trimmed, and nothing else: the handler does not look at the
  listings table, so whatever that table holds (no listing of that id, or a
  soft-deleted one) the write succeeds, appends one message row under a fresh id
  with that listing id, the caller and the trimmed text, and answers with that row.
\<close>

theorem post_message_needs_no_listing:
  assumes "toInt e (params_id rq) \<noteq> 0" and "safeTrim e (body rq ''message'') \<noteq> []"
  shows "\<exists>i. i \<notin> set (map m_id (carry_messages d)) \<and>
     post_message e rq d =
       (let row = \<lparr> m_id = i, m_listing_id = toInt e (params_id rq), m_sender_id = user_id rq,
                     m_message = safeTrim e (body rq ''message''), m_created_at = Some (now rq) \<rparr>
        in (Json (P_message (Some row)), d\<lparr>carry_messages := carry_messages d @ [row]\<rparr>))"
proof -
  let ?i = "next_id (map m_id (carry_messages d))"
  let ?row = "\<lparr> m_id = ?i, m_listing_id = toInt e (params_id rq), m_sender_id = user_id rq,
                m_message = safeTrim e (body rq ''message''), m_created_at = Some (now rq) \<rparr>"
  have fresh: "?i \<notin> set (map m_id (carry_messages d))" by (rule next_id_fresh)
  then have "\<forall>x \<in> set (carry_messages d). \<not> m_id x = ?i" by force
  then have "find (\<lambda>r. m_id r = ?i) (carry_messages d @ [?row]) = Some ?row"
    by (rule find_append_fresh) simp
  then have "post_message e rq d =
       (let row = ?row
        in (Json (P_message (Some row)), d\<lparr>carry_messages := carry_messages d @ [row]\<rparr>))"
    using assms by (simp add: post_message_def Let_def get_message_def)
  with fresh show ?thesis by blast
qed

theorem post_message_needs_no_listing_witness:
  "get_listing (sample_db sample_listing []) 7 = None \<and>
   (\<exists>i. i \<notin> set (map m_id (carry_messages (sample_db sample_listing []))) \<and>
     post_message host (with_field ''message'' (JStr '' hello '') (quoted '' hello '') (sample_req ''7'' 2))
         (sample_db sample_listing []) =
       (let row = \<lparr> m_id = i, m_listing_id = 7, m_sender_id = 2,
                     m_message = ''hello'', m_created_at = Some ''2024-05-01 10:00:00'' \<rparr>
        in (Json (P_message (Some row)),
            (sample_db sample_listing [])\<lparr>carry_messages := [row]\<rparr>)))"
proof -
  let ?rq = "with_field ''message'' (JStr '' hello '') (quoted '' hello '') (sample_req ''7'' 2)"
  let ?d = "sample_db sample_listing []"
  have i: "toInt host (params_id ?rq) = 7" by code_simp
  have m: "safeTrim host (body ?rq ''message'') = ''hello''" by code_simp
  have h1: "toInt host (params_id ?rq) \<noteq> 0" by (simp add: i)
  have h2: "safeTrim host (body ?rq ''message'') \<noteq> []" by (simp add: m)
  have u: "user_id ?rq = 2" by code_simp
  have n: "now ?rq = ''2024-05-01 10:00:00''" by code_simp
  have c: "carry_messages ?d = []" by code_simp
  have g: "get_listing ?d 7 = None" by code_simp
  show ?thesis
    using post_message_needs_no_listing [OF h1 h2, of ?d] g unfolding i m u n c by simp
qed

section \<open>Creating a listing\<close>




section \<open>The status of a match request\<close>

lemma get_existing_mem:
  "get_existing d lid uid = Some x \<Longrightarrow> x \<in> set (carry_requests d)"
  by (auto simp: get_existing_def find_Some_iff)

lemma create_request_rows:
  "carry_requests (snd (create_request e rq d)) = carry_requests d \<or>
   (\<exists>row. carry_requests (snd (create_request e rq d)) = carry_requests d @ [row]) \<or>
   (\<exists>x \<in> set (carry_requests d). r_status x = Some ''cancelled'' \<and>
      carry_requests (snd (create_request e rq d)) =
        map (\<lambda>r. if r_id r = r_id x then r\<lparr>r_status := Some ''pending''\<rparr> else r) (carry_requests d))"
  by (auto simp: create_request_def Let_def requests_update_requests
           dest: get_existing_mem split: option.splits)

lemma accept_request_rows:
  "carry_requests (snd (accept_request e rq d)) = carry_requests d \<or>
   carry_requests (snd (accept_request e rq d)) =
     map (\<lambda>r. if r_id r = toInt e (params_id rq) then r\<lparr>r_status := Some ''accepted''\<rparr> else r)
       (carry_requests d)"
  by (auto simp: accept_request_def Let_def requests_update_requests split: option.splits)

lemma reject_request_rows:
  "carry_requests (snd (reject_request e rq d)) = carry_requests d \<or>
   carry_requests (snd (reject_request e rq d)) =
     map (\<lambda>r. if r_id r = toInt e (params_id rq) then r\<lparr>r_status := Some ''rejected''\<rparr> else r)
       (carry_requests d)"
  by (auto simp: reject_request_def Let_def requests_update_requests split: option.splits)

lemma primary_key_row:
  assumes "distinct (map r_id xs)" and "i < length xs" and "x \<in> set xs" and "r_id (xs ! i) = r_id x"
  shows "xs ! i = x"
proof -
  have "inj_on r_id (set xs)"
    using assms(1) by (simp add: distinct_map)
  moreover have "xs ! i \<in> set xs"
    using assms(2) by simp
  ultimately show ?thesis
    using assms(3,4) by (auto dest: inj_onD)
qed

lemma primary_key_get:
  assumes "distinct (map r_id (carry_requests d))" and "i < length (carry_requests d)"
  shows "get_request d (r_id (carry_requests d ! i)) = Some (carry_requests d ! i)"
proof -
  have "carry_requests d ! i \<in> set (carry_requests d)"
    using assms(2) by simp
  then have "get_request d (r_id (carry_requests d ! i)) \<noteq> None"
    unfolding get_request_def find_None_iff by blast
  then obtain x where x: "get_request d (r_id (carry_requests d ! i)) = Some x"
    by blast
  then have "x \<in> set (carry_requests d)" "r_id x = r_id (carry_requests d ! i)"
    by (auto simp: get_request_def find_Some_iff)
  with assms have "carry_requests d ! i = x"
    by (intro primary_key_row) simp_all
  with x show ?thesis by simp
qed

lemma accept_request_run:
  assumes "toInt e (params_id rq) \<noteq> 0"
    and "get_request d (toInt e (params_id rq)) = Some r"
    and "get_listing d (r_listing_id r) = Some l"
    and "user_id rq \<noteq> 0"
    and "user_id rq = l_user_id l \<or> isAdminReq rq"
  shows "carry_requests (snd (accept_request e rq d)) =
     map (\<lambda>r. if r_id r = toInt e (params_id rq) then r\<lparr>r_status := Some ''accepted''\<rparr> else r)
       (carry_requests d)"
  using assms
  by (auto simp: accept_request_def Let_def canEdit_def requests_update_requests)

lemma reject_request_run:
  assumes "toInt e (params_id rq) \<noteq> 0"
    and "get_request d (toInt e (params_id rq)) = Some r"
    and "get_listing d (r_listing_id r) = Some l"
    and "user_id rq \<noteq> 0"
    and "user_id rq = l_user_id l \<or> isAdminReq rq"
  shows "carry_requests (snd (reject_request e rq d)) =
     map (\<lambda>r. if r_id r = toInt e (params_id rq) then r\<lparr>r_status := Some ''rejected''\<rparr> else r)
       (carry_requests d)"
  using assms
  by (auto simp: reject_request_def Let_def canEdit_def requests_update_requests)

text \<open>
  Claim C2 says that \<open>accepted\<close> and \<open>rejected\<close> are terminal. The accept and
  reject handlers never read the status of the request they write, so they are not:
  in a store where request 1 is \<open>accepted\<close>, a reject by the owner of the listing
  answers \<^verbatim>\<open>{ok: true}\<close> and leaves the request \<open>rejected\<close>.
\<close>

theorem accepted_not_terminal_counterexample:
  "map_option r_status
     (get_request (sample_db sample_listing [sample_request ''accepted'']) 1)
       = Some (Some ''accepted'') \<and>
   fst (reject_request host (sample_req ''1'' 1)
          (sample_db sample_listing [sample_request ''accepted''])) = Json P_ok \<and>
   map_option r_status
     (get_request
        (snd (reject_request host (sample_req ''1'' 1)
                (sample_db sample_listing [sample_request ''accepted''])))
        1) = Some (Some ''rejected'')"
  by code_simp

text \<open>
  Claim C2 as amended. Request ids being a primary key, for the request at any
  position of the table:
  \<^item> a create leaves it as it is when its status is \<open>accepted\<close> or \<open>rejected\<close>;
  \<^item> if one of the three operations takes it to \<open>pending\<close> from another status, the
    operation is a create and the status was \<open>cancelled\<close>;
  \<^item> a reject or an accept that names it, by the owner of its listing or an admin,
    sets it to \<open>rejected\<close> or \<open>accepted\<close> whatever its status was.
\<close>

theorem request_status_transitions:
  assumes pk: "distinct (map r_id (carry_requests d))"
    and i: "i < length (carry_requests d)"
  shows "(r_status (carry_requests d ! i) \<in> {Some ''accepted'', Some ''rejected''} \<longrightarrow>
            carry_requests (snd (create_request e rq d)) ! i = carry_requests d ! i) \<and>
         (r_status (carry_requests (snd (run_request_op op e rq d)) ! i) = Some ''pending'' \<and>
          r_status (carry_requests d ! i) \<noteq> Some ''pending'' \<longrightarrow>
            op = Create \<and> r_status (carry_requests d ! i) = Some ''cancelled'') \<and>
         (toInt e (params_id rq) = r_id (carry_requests d ! i) \<and> r_id (carry_requests d ! i) \<noteq> 0 \<and>
          get_listing d (r_listing_id (carry_requests d ! i)) = Some l \<and>
          user_id rq \<noteq> 0 \<and> (user_id rq = l_user_id l \<or> isAdminReq rq) \<longrightarrow>
            r_status (carry_requests (snd (reject_request e rq d)) ! i) = Some ''rejected'' \<and>
            r_status (carry_requests (snd (accept_request e rq d)) ! i) = Some ''accepted'')"
proof (intro conjI impI)
  let ?xs = "carry_requests d"
  have cancelled: "r_status (?xs ! i) = Some ''cancelled''"
    if "x \<in> set ?xs" "r_status x = Some ''cancelled''" "r_id (?xs ! i) = r_id x" for x
    using primary_key_row [OF pk i that(1,3)] that(2) by simp
  {
    assume st: "r_status (?xs ! i) \<in> {Some ''accepted'', Some ''rejected''}"
    from create_request_rows [of e rq d]
    show "carry_requests (snd (create_request e rq d)) ! i = ?xs ! i"
    proof (elim disjE exE bexE conjE)
      assume "carry_requests (snd (create_request e rq d)) = ?xs"
      then show ?thesis by simp
    next
      fix row assume "carry_requests (snd (create_request e rq d)) = ?xs @ [row]"
      then show ?thesis using i by (simp add: nth_append)
    next
      fix x assume x: "x \<in> set ?xs" "r_status x = Some ''cancelled''"
        and eq: "carry_requests (snd (create_request e rq d)) =
          map (\<lambda>r. if r_id r = r_id x then r\<lparr>r_status := Some ''pending''\<rparr> else r) ?xs"
      have "r_id (?xs ! i) \<noteq> r_id x"
        using cancelled [OF x] st by auto
      then show ?thesis using i by (simp add: eq)
    qed
  }
  {
    assume a: "r_status (carry_requests (snd (run_request_op op e rq d)) ! i) = Some ''pending'' \<and>
               r_status (?xs ! i) \<noteq> Some ''pending''"
    show "op = Create"
    proof (cases op)
      case Create
      then show ?thesis by simp
    next
      case Accept
      with a accept_request_rows [of e rq d] i show ?thesis
        by (auto split: if_splits)
    next
      case Reject
      with a reject_request_rows [of e rq d] i show ?thesis
        by (auto split: if_splits)
    qed
    show "r_status (?xs ! i) = Some ''cancelled''"
    proof (cases op)
      case Create
      from create_request_rows [of e rq d] show ?thesis
      proof (elim disjE exE bexE conjE)
        assume "carry_requests (snd (create_request e rq d)) = ?xs"
        with a Create show ?thesis by simp
      next
        fix row assume "carry_requests (snd (create_request e rq d)) = ?xs @ [row]"
        with a Create i show ?thesis by (simp add: nth_append)
      next
        fix x assume x: "x \<in> set ?xs" "r_status x = Some ''cancelled''"
          and eq: "carry_requests (snd (create_request e rq d)) =
            map (\<lambda>r. if r_id r = r_id x then r\<lparr>r_status := Some ''pending''\<rparr> else r) ?xs"
        show ?thesis
        proof (cases "r_id (?xs ! i) = r_id x")
          case True
          then show ?thesis by (rule cancelled [OF x])
        next
          case False
          with a Create i show ?thesis by (simp add: eq)
        qed
      qed
    next
      case Accept
      with a accept_request_rows [of e rq d] i show ?thesis
        by (auto split: if_splits)
    next
      case Reject
      with a reject_request_rows [of e rq d] i show ?thesis
        by (auto split: if_splits)
    qed
  }
  {
    assume h: "toInt e (params_id rq) = r_id (?xs ! i) \<and> r_id (?xs ! i) \<noteq> 0 \<and>
          get_listing d (r_listing_id (?xs ! i)) = Some l \<and>
          user_id rq \<noteq> 0 \<and> (user_id rq = l_user_id l \<or> isAdminReq rq)"
    have g: "get_request d (toInt e (params_id rq)) = Some (?xs ! i)"
      using primary_key_get [OF pk i] h by simp
    have nz: "toInt e (params_id rq) \<noteq> 0" using h by simp
    show "r_status (carry_requests (snd (reject_request e rq d)) ! i) = Some ''rejected''"
      using reject_request_run [OF nz g, of l] h i by simp
    show "r_status (carry_requests (snd (accept_request e rq d)) ! i) = Some ''accepted''"
      using accept_request_run [OF nz g, of l] h i by simp
  }
qed

theorem request_status_transitions_witness:
  "carry_requests (snd (create_request host (sample_req ''1'' 2)
       (sample_db sample_listing [sample_request ''rejected'']))) ! 0
     = sample_request ''rejected'' \<and>
   r_status (carry_requests (snd (run_request_op Create host (sample_req ''1'' 2)
       (sample_db sample_listing [sample_request ''cancelled'']))) ! 0) = Some ''pending'' \<and>
   r_status (carry_requests (snd (reject_request host (sample_req ''1'' 1)
       (sample_db sample_listing [sample_request ''accepted'']))) ! 0) = Some ''rejected'' \<and>
   r_status (carry_requests (snd (accept_request host (sample_req ''1'' 1)
       (sample_db sample_listing [sample_request ''rejected'']))) ! 0) = Some ''accepted''"
proof -
  let ?rej = "sample_db sample_listing [sample_request ''rejected'']"
  let ?acc = "sample_db sample_listing [sample_request ''accepted'']"
  let ?can = "sample_db sample_listing [sample_request ''cancelled'']"
  have pk: "distinct (map r_id (carry_requests (sample_db sample_listing [sample_request st])))" for st
    by (simp add: sample_db_def)
  have i: "0 < length (carry_requests (sample_db sample_listing [sample_request st]))" for st
    by (simp add: sample_db_def)
  have row: "carry_requests (sample_db sample_listing [sample_request st]) ! 0 = sample_request st" for st
    by (simp add: sample_db_def)
  have st: "r_status (sample_request st) = Some st" "r_id (sample_request st) = 1"
    "r_listing_id (sample_request st) = 1" for st
    by (simp_all add: sample_request_def)
  have l: "get_listing (sample_db sample_listing [sample_request st]) 1 = Some sample_listing" for st
    by (simp add: get_listing_def sample_db_def sample_listing_def)
  have o: "toInt host (params_id (sample_req ''1'' 1)) = 1" "user_id (sample_req ''1'' 1) = 1"
     "l_user_id sample_listing = 1"
    by code_simp+
  have p: "r_status (carry_requests (snd (run_request_op Create host (sample_req ''1'' 2) ?can)) ! 0)
      = Some ''pending''"
    by code_simp
  have a: "carry_requests (snd (create_request host (sample_req ''1'' 2) ?rej)) ! 0
     = sample_request ''rejected''"
    using request_status_transitions [where d = ?rej and i = 0 and e = host
        and rq = "sample_req ''1'' 2" and op = Create and l = sample_listing] pk i
    by (simp add: row st)
  have r: "r_status (carry_requests (snd (reject_request host (sample_req ''1'' 1) ?acc)) ! 0)
      = Some ''rejected''"
    using request_status_transitions [where d = ?acc and i = 0 and e = host
        and rq = "sample_req ''1'' 1" and op = Reject and l = sample_listing] pk i
    by (simp add: row st l o)
  have s: "r_status (carry_requests (snd (accept_request host (sample_req ''1'' 1) ?rej)) ! 0)
      = Some ''accepted''"
    using request_status_transitions [where d = ?rej and i = 0 and e = host
        and rq = "sample_req ''1'' 1" and op = Accept and l = sample_listing] pk i
    by (simp add: row st l o)
  show ?thesis using a p r s by simp
qed


section \<open>Updating and deleting a listing\<close>

text \<open>
  Claim C3 says that update and soft delete answer not-found for an inactive
  listing. Both handlers look the listing up by id alone, with no test of
  \<open>is_active\<close>: on listing 1 with \<open>is_active = 0\<close>, the owner's DELETE answers
  \<^verbatim>\<open>{ok: true}\<close> and the owner's PATCH answers with the mapped listing.
\<close>

theorem inactive_listing_found_counterexample:
  "l_is_active (sample_listing\<lparr>l_is_active := Some 0\<rparr>) = Some 0 \<and>
   fst (delete_listing host (sample_req ''1'' 1)
          (sample_db (sample_listing\<lparr>l_is_active := Some 0\<rparr>) [])) = Json P_ok \<and>
   fst (update_listing host (sample_req ''1'' 1)
          (sample_db (sample_listing\<lparr>l_is_active := Some 0\<rparr>) [])) =
     Json (P_item (mapListing host
       (sample_listing\<lparr>l_is_active := Some 0, l_updated_at := Some ''2024-05-01 10:00:00''\<rparr>)))"
  by code_simp

text \<open>
  Claim C3 as amended. For an id that \<^verbatim>\<open>toInt\<close> accepts, update and soft delete
  \<^item> fail with 404 when no row has that id;
  \<^item> fail with 403 when a row has it, active or not, and the caller is neither its
    owner nor an admin;
  \<^item> and serve the owner or an admin for every row that has it, active or not.
\<close>

theorem update_delete_errors:
  assumes "toInt e (params_id rq) \<noteq> 0"
  shows "(get_listing d (toInt e (params_id rq)) = None \<longrightarrow>
            update_listing e rq d = (Error 404 ''Not found'', d) \<and>
            delete_listing e rq d = (Error 404 ''Not found'', d)) \<and>
         (\<forall>row. get_listing d (toInt e (params_id rq)) = Some row \<and>
                user_id rq \<noteq> l_user_id row \<and> \<not> isAdminReq rq \<longrightarrow>
            update_listing e rq d = (Error 403 ''Forbidden'', d) \<and>
            delete_listing e rq d = (Error 403 ''Forbidden'', d)) \<and>
         (\<forall>row. get_listing d (toInt e (params_id rq)) = Some row \<and>
                user_id rq \<noteq> 0 \<and> (user_id rq = l_user_id row \<or> isAdminReq rq) \<longrightarrow>
            (\<exists>item. fst (update_listing e rq d) = Json (P_item item)) \<and>
            fst (delete_listing e rq d) = Json P_ok)"
proof (intro conjI allI impI)
  assume "get_listing d (toInt e (params_id rq)) = None"
  then show "update_listing e rq d = (Error 404 ''Not found'', d)"
    and "delete_listing e rq d = (Error 404 ''Not found'', d)"
    using assms by (simp_all add: update_listing_def delete_listing_def Let_def)
next
  fix row
  assume h: "get_listing d (toInt e (params_id rq)) = Some row \<and>
             user_id rq \<noteq> l_user_id row \<and> \<not> isAdminReq rq"
  then have "\<not> canEdit (user_id rq) (l_user_id row) rq"
    by (simp add: canEdit_def)
  with h show "update_listing e rq d = (Error 403 ''Forbidden'', d)"
    and "delete_listing e rq d = (Error 403 ''Forbidden'', d)"
    using assms by (simp_all add: update_listing_def delete_listing_def Let_def)
next
  fix row
  assume h: "get_listing d (toInt e (params_id rq)) = Some row \<and>
             user_id rq \<noteq> 0 \<and> (user_id rq = l_user_id row \<or> isAdminReq rq)"
  then have ce: "canEdit (user_id rq) (l_user_id row) rq"
    by (auto simp: canEdit_def)
  with h show "fst (delete_listing e rq d) = Json P_ok"
    using assms by (simp add: delete_listing_def Let_def)
  from h ce show "\<exists>item. fst (update_listing e rq d) = Json (P_item item)"
    using assms by (simp add: update_listing_def Let_def get_listing_update_listings)
qed

theorem update_delete_errors_witness:
  "update_listing host (sample_req ''9'' 1) (sample_db sample_listing [])
     = (Error 404 ''Not found'', sample_db sample_listing []) \<and>
   delete_listing host (sample_req ''9'' 1) (sample_db sample_listing [])
     = (Error 404 ''Not found'', sample_db sample_listing []) \<and>
   update_listing host (sample_req ''1'' 2) (sample_db (sample_listing\<lparr>l_is_active := Some 0\<rparr>) [])
     = (Error 403 ''Forbidden'', sample_db (sample_listing\<lparr>l_is_active := Some 0\<rparr>) []) \<and>
   delete_listing host (sample_req ''1'' 2) (sample_db (sample_listing\<lparr>l_is_active := Some 0\<rparr>) [])
     = (Error 403 ''Forbidden'', sample_db (sample_listing\<lparr>l_is_active := Some 0\<rparr>) []) \<and>
   (\<exists>item. fst (update_listing host (sample_req ''1'' 1)
                   (sample_db (sample_listing\<lparr>l_is_active := Some 0\<rparr>) [])) = Json (P_item item)) \<and>
   fst (delete_listing host (sample_req ''1'' 1)
          (sample_db (sample_listing\<lparr>l_is_active := Some 0\<rparr>) [])) = Json P_ok"
proof -
  let ?off = "sample_listing\<lparr>l_is_active := Some 0\<rparr>"
  have i9: "toInt host (params_id (sample_req ''9'' u)) = 9" for u by code_simp
  have i1: "toInt host (params_id (sample_req ''1'' u)) = 1" for u by code_simp
  have n9: "get_listing (sample_db sample_listing []) 9 = None" by code_simp
  have g1: "get_listing (sample_db ?off []) 1 = Some ?off" by code_simp
  have u: "user_id (sample_req p u) = u" "isAdminReq (sample_req p u) = False" for p u
    by (simp_all add: sample_req_def)
  have o: "l_user_id ?off = 1" by code_simp
  have a: "update_listing host (sample_req ''9'' 1) (sample_db sample_listing [])
             = (Error 404 ''Not found'', sample_db sample_listing []) \<and>
           delete_listing host (sample_req ''9'' 1) (sample_db sample_listing [])
             = (Error 404 ''Not found'', sample_db sample_listing [])"
    using update_delete_errors [of host "sample_req ''9'' 1" "sample_db sample_listing []"]
    by (simp add: i9 n9)
  have b: "update_listing host (sample_req ''1'' 2) (sample_db ?off [])
             = (Error 403 ''Forbidden'', sample_db ?off []) \<and>
           delete_listing host (sample_req ''1'' 2) (sample_db ?off [])
             = (Error 403 ''Forbidden'', sample_db ?off [])"
    using update_delete_errors [of host "sample_req ''1'' 2" "sample_db ?off []"]
    by (simp add: i1 g1 u o)
  have c: "(\<exists>item. fst (update_listing host (sample_req ''1'' 1) (sample_db ?off [])) = Json (P_item item)) \<and>
           fst (delete_listing host (sample_req ''1'' 1) (sample_db ?off [])) = Json P_ok"
    using update_delete_errors [of host "sample_req ''1'' 1" "sample_db ?off []"]
    by (simp add: i1 g1 u o)
  show ?thesis using a b c by simp
qed

section \<open>Creating a match request\<close>

text \<open>
  Claim C4 says that a request against one's own listing always fails with 400. The
  listing is looked up with \<^verbatim>\<open>is_active=1\<close> before the owner is compared: against
  their own soft-deleted listing the caller gets 404.
\<close>

theorem own_inactive_listing_counterexample:
  "l_user_id (sample_listing\<lparr>l_is_active := Some 0\<rparr>) = user_id (sample_req ''1'' 1) \<and>
   create_request host (sample_req ''1'' 1) (sample_db (sample_listing\<lparr>l_is_active := Some 0\<rparr>) [])
     = (Error 404 ''Not found'', sample_db (sample_listing\<lparr>l_is_active := Some 0\<rparr>) [])"
  by code_simp

text \<open>
  Claim C4 as amended. For every active listing and every caller who owns it,
  creating a match request against it fails with 400 and changes nothing, whatever
  the status of the listing; when no active listing has the id, the create fails
  with 404.
\<close>

theorem own_listing_request_rejected:
  assumes "toInt e (params_id rq) \<noteq> 0"
  shows "(\<forall>l. get_active_listing d (toInt e (params_id rq)) = Some l \<and> l_user_id l = user_id rq \<longrightarrow>
            create_request e rq d = (Error 400 ''You can't request your own listing'', d)) \<and>
         (get_active_listing d (toInt e (params_id rq)) = None \<longrightarrow>
            create_request e rq d = (Error 404 ''Not found'', d))"
  using assms by (simp add: create_request_def Let_def)

theorem own_listing_request_rejected_witness:
  "create_request host (sample_req ''1'' 1) (sample_db (sample_listing\<lparr>l_status := Some ''matched''\<rparr>) [])
     = (Error 400 ''You can't request your own listing'',
        sample_db (sample_listing\<lparr>l_status := Some ''matched''\<rparr>) []) \<and>
   create_request host (sample_req ''9'' 1) (sample_db sample_listing [])
     = (Error 404 ''Not found'', sample_db sample_listing [])"
proof -
  let ?m = "sample_listing\<lparr>l_status := Some ''matched''\<rparr>"
  have i9: "toInt host (params_id (sample_req ''9'' 1)) = 9" by code_simp
  have i1: "toInt host (params_id (sample_req ''1'' 1)) = 1" by code_simp
  have n9: "get_active_listing (sample_db sample_listing []) 9 = None" by code_simp
  have g1: "get_active_listing (sample_db ?m []) 1 = Some ?m" by code_simp
  have o: "l_user_id ?m = user_id (sample_req ''1'' 1)" by code_simp
  show ?thesis
    using own_listing_request_rejected [of host "sample_req ''1'' 1" "sample_db ?m []"]
      own_listing_request_rejected [of host "sample_req ''9'' 1" "sample_db sample_listing []"]
    by (simp add: i9 i1 n9 g1 o)
qed

text \<open>
  Claim C5 speaks of every pair of a listing and a requester with an existing
  request. The duplicate and reuse logic runs only once the listing has been found
  active and open: on a listing that is \<open>matched\<close>, the create of the user whose
  request is \<open>cancelled\<close> fails with 400 "Listing not open" and the request stays
  \<open>cancelled\<close>.
\<close>

theorem cancelled_not_reused_counterexample:
  "get_existing (sample_db (sample_listing\<lparr>l_status := Some ''matched''\<rparr>) [sample_request ''cancelled''])
       1 2 = Some (sample_request ''cancelled'') \<and>
   create_request host (sample_req ''1'' 2)
       (sample_db (sample_listing\<lparr>l_status := Some ''matched''\<rparr>) [sample_request ''cancelled''])
     = (Error 400 ''Listing not open'',
        sample_db (sample_listing\<lparr>l_status := Some ''matched''\<rparr>) [sample_request ''cancelled''])"
  by code_simp

text \<open>
  Claim C5 as amended. On a listing that is active and \<open>open\<close> and that the caller
  does not own, when the caller already has a request against it (under a non-zero
  id, as every AUTOINCREMENT id is): if that request is not \<open>cancelled\<close> the create
  fails with 400 "Already requested" and changes nothing; if it is \<open>cancelled\<close> the
  create answers with the id of that request and status \<open>pending\<close>, the table keeps
  its rows and ids, and the request read by that id is \<open>pending\<close>.
\<close>

theorem duplicate_or_reuse:
  assumes "toInt e (params_id rq) \<noteq> 0"
    and "get_active_listing d (toInt e (params_id rq)) = Some l"
    and "l_user_id l \<noteq> user_id rq"
    and "l_status l = Some ''open''"
    and "get_existing d (toInt e (params_id rq)) (user_id rq) = Some x"
    and "r_id x \<noteq> 0"
  shows "(r_status x \<noteq> Some ''cancelled'' \<longrightarrow>
            create_request e rq d = (Error 400 ''Already requested'', d)) \<and>
         (r_status x = Some ''cancelled'' \<longrightarrow>
            fst (create_request e rq d) = Json (P_request (r_id x) ''pending'') \<and>
            map r_id (carry_requests (snd (create_request e rq d))) = map r_id (carry_requests d) \<and>
            map_option r_status (get_request (snd (create_request e rq d)) (r_id x))
              = Some (Some ''pending''))"
proof (intro conjI impI)
  assume "r_status x \<noteq> Some ''cancelled''"
  then show "create_request e rq d = (Error 400 ''Already requested'', d)"
    using assms by (simp add: create_request_def Let_def)
next
  assume c: "r_status x = Some ''cancelled''"
  have run: "create_request e rq d =
      (Json (P_request (r_id x) ''pending''),
       update_requests (r_id x) (\<lambda>r. r\<lparr>r_status := Some ''pending''\<rparr>) d)"
    using assms c by (simp add: create_request_def Let_def)
  show "fst (create_request e rq d) = Json (P_request (r_id x) ''pending'')"
    by (simp add: run)
  show "map r_id (carry_requests (snd (create_request e rq d))) = map r_id (carry_requests d)"
    by (simp add: run requests_update_requests)
  have "x \<in> set (carry_requests d)"
    using assms(5) by (rule get_existing_mem)
  then have "get_request d (r_id x) \<noteq> None"
    unfolding get_request_def find_None_iff by blast
  then show "map_option r_status (get_request (snd (create_request e rq d)) (r_id x))
              = Some (Some ''pending'')"
    by (auto simp: run get_request_update_requests)
qed

theorem duplicate_or_reuse_witness:
  "create_request host (sample_req ''1'' 2) (sample_db sample_listing [sample_request ''pending''])
     = (Error 400 ''Already requested'', sample_db sample_listing [sample_request ''pending'']) \<and>
   fst (create_request host (sample_req ''1'' 2) (sample_db sample_listing [sample_request ''cancelled'']))
     = Json (P_request 1 ''pending'') \<and>
   map r_id (carry_requests (snd (create_request host (sample_req ''1'' 2)
       (sample_db sample_listing [sample_request ''cancelled''])))) = [1] \<and>
   map_option r_status (get_request (snd (create_request host (sample_req ''1'' 2)
       (sample_db sample_listing [sample_request ''cancelled'']))) 1) = Some (Some ''pending'')"
proof -
  let ?rq = "sample_req ''1'' 2"
  have i: "toInt host (params_id ?rq) = 1" by code_simp
  have nz: "toInt host (params_id ?rq) \<noteq> 0" by (simp add: i)
  have g: "get_active_listing (sample_db sample_listing [sample_request st]) (toInt host (params_id ?rq))
             = Some sample_listing" for st
    unfolding i by (simp add: get_active_listing_def sample_db_def sample_listing_def)
  have o: "l_user_id sample_listing \<noteq> user_id ?rq" by code_simp
  have s: "l_status sample_listing = Some ''open''" by code_simp
  have x: "get_existing (sample_db sample_listing [sample_request st]) (toInt host (params_id ?rq))
             (user_id ?rq) = Some (sample_request st)" for st
    unfolding i by (simp add: get_existing_def sample_db_def sample_request_def sample_req_def)
  have k: "r_id (sample_request st) \<noteq> 0" for st
    by (simp add: sample_request_def)
  have f: "r_status (sample_request st) = Some st" "r_id (sample_request st) = 1" for st
    by (simp_all add: sample_request_def)
  have c: "carry_requests (sample_db sample_listing [sample_request st]) = [sample_request st]" for st
    by (simp add: sample_db_def)
  show ?thesis
    using duplicate_or_reuse [OF nz g o s x k, of "''pending''"]
      duplicate_or_reuse [OF nz g o s x k, of "''cancelled''"]
    by (simp add: f c)
qed

section \<open>The rating of a review\<close>

lemma clamp_to_rating:
  "Math_max (Fin 1) (Math_min (Fin 5) (Fin (of_int k))) = Fin (of_int (max 1 (min 5 k)))"
  by (simp add: min_def max_def)

lemma clampRating_finite:
  "Number_js e v = Fin x \<Longrightarrow>
   clampRating e v = Some (Fin (of_int (max 1 (min 5 \<lfloor>x + 1 / 2\<rfloor>))))"
  by (simp add: clampRating_def Let_def clamp_to_rating)

lemma clampRating_not_finite:
  "\<not> isFinite (Number_js e v) \<Longrightarrow> clampRating e v = None"
  by (simp add: clampRating_def Let_def)

text \<open>
  Claim C6 says that a rating of 3.7 is stored as 3. \<^verbatim>\<open>Math.round\<close> takes it to the
  nearest integer: the review row holds 4.
\<close>

theorem rating_3_7_counterexample:
  "fst (post_review host (with_field ''rating'' (JNum (Fin (37 / 10))) ''3.7'' (sample_req ''1'' 2))
          (sample_db sample_listing [])) = Json P_ok \<and>
   map v_rating
     (carry_reviews
        (snd (post_review host (with_field ''rating'' (JNum (Fin (37 / 10))) ''3.7'' (sample_req ''1'' 2))
                (sample_db sample_listing [])))) = [Fin 4] \<and>
   Fin 4 \<noteq> Fin 3"
  by code_simp

text \<open>
  Claim C6 as amended. For a review under an id that \<^verbatim>\<open>toInt\<close> accepts, the rating
  being \<^verbatim>\<open>rating\<close>, or \<^verbatim>\<open>stars\<close> when \<^verbatim>\<open>rating\<close> is null or missing:
  \<^item> when \<^verbatim>\<open>Number\<close> of it is not finite (as for \<^verbatim>\<open>"abc"\<close>), the review is rejected
    with 400 and nothing is stored;
  \<^item> when it is the finite number \<open>x\<close>, the listing exists and the reviewed user id
    is a number, one review row is appended, and its rating is \<open>x\<close> rounded to the
    nearest integer (a half goes up) and clamped into 1..5. So 0, 6 and 3.7 are
    stored as 1, 5 and 4.
\<close>

theorem review_rating_rounded_and_clamped:
  assumes "toInt e (params_id rq) \<noteq> 0"
  shows "(\<not> isFinite (Number_js e (js_coalesce (body rq ''rating'') (body rq ''stars''))) \<longrightarrow>
            post_review e rq d = (Error 400 ''Bad rating'', d)) \<and>
         (\<forall>x l. Number_js e (js_coalesce (body rq ''rating'') (body rq ''stars'')) = Fin x \<and>
                get_listing d (toInt e (params_id rq)) = Some l \<and>
                Number_js e (js_or (body rq ''reviewed_user_id'') (JNum (Fin (of_int (l_user_id l)))))
                  \<noteq> NaN \<longrightarrow>
            fst (post_review e rq d) = Json P_ok \<and>
            (\<exists>row. carry_reviews (snd (post_review e rq d)) = carry_reviews d @ [row] \<and>
                   v_rating row = Fin (of_int (max 1 (min 5 \<lfloor>x + 1 / 2\<rfloor>)))))"
proof (intro conjI allI impI)
  assume "\<not> isFinite (Number_js e (js_coalesce (body rq ''rating'') (body rq ''stars'')))"
  then show "post_review e rq d = (Error 400 ''Bad rating'', d)"
    using assms by (simp add: post_review_def Let_def clampRating_not_finite)
next
  fix x l
  assume h: "Number_js e (js_coalesce (body rq ''rating'') (body rq ''stars'')) = Fin x \<and>
             get_listing d (toInt e (params_id rq)) = Some l \<and>
             Number_js e (js_or (body rq ''reviewed_user_id'') (JNum (Fin (of_int (l_user_id l)))))
               \<noteq> NaN"
  have nz: "(of_int (max 1 (min 5 \<lfloor>x + 1 / 2\<rfloor>)) :: rat) \<noteq> 0"
    by (simp add: min_def max_def)
  let ?row = "\<lparr> v_id = next_id (map v_id (carry_reviews d)),
                v_listing_id = toInt e (params_id rq),
                v_reviewer_id = user_id rq,
                v_reviewed_user_id =
                  Number_js e (js_or (body rq ''reviewed_user_id'') (JNum (Fin (of_int (l_user_id l))))),
                v_rating = Fin (of_int (max 1 (min 5 \<lfloor>x + 1 / 2\<rfloor>))),
                v_comment = or_null (Some (safeTrim e (body rq ''comment''))),
                v_created_at = Some (now rq) \<rparr>"
  have run: "post_review e rq d = (Json P_ok, d\<lparr>carry_reviews := carry_reviews d @ [?row]\<rparr>)"
    using assms h nz by (simp add: post_review_def Let_def clampRating_finite)
  show "fst (post_review e rq d) = Json P_ok"
    by (simp add: run)
  show "\<exists>row. carry_reviews (snd (post_review e rq d)) = carry_reviews d @ [row] \<and>
              v_rating row = Fin (of_int (max 1 (min 5 \<lfloor>x + 1 / 2\<rfloor>)))"
    by (intro exI [of _ ?row]) (simp add: run)
qed


theorem review_rating_rounded_and_clamped_witness:
  "map v_rating (carry_reviews (snd (post_review host
       (with_field ''rating'' (JNum (Fin 0)) ''0'' (sample_req ''1'' 2))
       (sample_db sample_listing [])))) = [Fin 1] \<and>
   map v_rating (carry_reviews (snd (post_review host
       (with_field ''rating'' (JNum (Fin 6)) ''6'' (sample_req ''1'' 2))
       (sample_db sample_listing [])))) = [Fin 5] \<and>
   map v_rating (carry_reviews (snd (post_review host
       (with_field ''rating'' (JNum (Fin (37 / 10))) ''3.7'' (sample_req ''1'' 2))
       (sample_db sample_listing [])))) = [Fin 4] \<and>
   post_review host (with_field ''rating'' (JStr ''abc'') (quoted ''abc'') (sample_req ''1'' 2))
       (sample_db sample_listing [])
     = (Error 400 ''Bad rating'', sample_db sample_listing [])"
proof -
  let ?d = "sample_db sample_listing []"
  let ?rq = "\<lambda>v t. with_field ''rating'' v t (sample_req ''1'' 2)"
  have i: "toInt host (params_id (?rq v t)) = 1" for v t
    by (simp add: with_field_def sample_req_def host_def host_toInt_def is_digit_def decimal_def)
  have nz: "toInt host (params_id (?rq v t)) \<noteq> 0" for v t
    by (simp add: i)
  have n: "Number_js host (js_coalesce (body (?rq (JNum (Fin x)) t) ''rating'')
             (body (?rq (JNum (Fin x)) t) ''stars'')) = Fin x" for x t
    by (simp add: with_field_def sample_req_def js_coalesce_def)
  have abc: "\<not> isFinite (Number_js host (js_coalesce (body (?rq (JStr ''abc'') t) ''rating'')
             (body (?rq (JStr ''abc'') t) ''stars'')))" for t
    by code_simp
  have g: "get_listing ?d 1 = Some sample_listing" by code_simp
  have u: "Number_js host (js_or (body (?rq v t) ''reviewed_user_id'')
             (JNum (Fin (of_int (l_user_id sample_listing))))) \<noteq> NaN" for v t
    by (simp add: with_field_def sample_req_def no_body_def js_or_def sample_listing_def)
  have c: "carry_reviews ?d = []" by code_simp
  have f0: "max 1 (min 5 \<lfloor>(0::rat) + 1 / 2\<rfloor>) = 1" by code_simp
  have f6: "max 1 (min 5 \<lfloor>(6::rat) + 1 / 2\<rfloor>) = 5" by code_simp
  have f37: "max 1 (min 5 \<lfloor>(37 / 10 :: rat) + 1 / 2\<rfloor>) = 4" by code_simp
  have stored: "map v_rating (carry_reviews (snd (post_review host (?rq (JNum (Fin x)) t) ?d)))
      = [Fin (of_int (max 1 (min 5 \<lfloor>x + 1 / 2\<rfloor>)))]" for x t
  proof -
    have "Number_js host (js_coalesce (body (?rq (JNum (Fin x)) t) ''rating'')
             (body (?rq (JNum (Fin x)) t) ''stars'')) = Fin x \<and>
          get_listing ?d (toInt host (params_id (?rq (JNum (Fin x)) t))) = Some sample_listing \<and>
          Number_js host (js_or (body (?rq (JNum (Fin x)) t) ''reviewed_user_id'')
             (JNum (Fin (of_int (l_user_id sample_listing))))) \<noteq> NaN"
      using n [of x t] g u [of "JNum (Fin x)" t] by (simp only: i simp_thms)
    with review_rating_rounded_and_clamped [OF nz, of "JNum (Fin x)" t ?d]
    obtain row where "carry_reviews (snd (post_review host (?rq (JNum (Fin x)) t) ?d))
          = carry_reviews ?d @ [row]"
      and "v_rating row = Fin (of_int (max 1 (min 5 \<lfloor>x + 1 / 2\<rfloor>)))"
      by blast
    then show ?thesis by (simp add: c)
  qed
  have r0: "map v_rating (carry_reviews (snd (post_review host (?rq (JNum (Fin 0)) ''0'') ?d))) = [Fin 1]"
    using stored [of 0 "''0''"] by (simp only: f0 of_int_1)
  have r6: "map v_rating (carry_reviews (snd (post_review host (?rq (JNum (Fin 6)) ''6'') ?d))) = [Fin 5]"
    using stored [of 6 "''6''"] by (simp only: f6 of_int_numeral)
  have r37: "map v_rating (carry_reviews (snd (post_review host (?rq (JNum (Fin (37 / 10))) ''3.7'') ?d)))
      = [Fin 4]"
    using stored [of "37 / 10" "''3.7''"] by (simp only: f37 of_int_numeral)
  have rabc: "post_review host (?rq (JStr ''abc'') (quoted ''abc'')) ?d = (Error 400 ''Bad rating'', ?d)"
    using review_rating_rounded_and_clamped [OF nz, of "JStr ''abc''" "quoted ''abc''" ?d] abc
    by simp
  show ?thesis using r0 r6 r37 rabc by simp
qed

section \<open>Airport search: the short query\<close>

text \<open>
  Claim C9. When the trimmed query has fewer than two characters the search answers
  the empty list with status 200, whatever the table holds and whatever the limit
  parameter is.
\<close>

theorem short_query_gives_empty_list:
  assumes "length (search_text e sq) < 2"
  shows "airport_search e sq airports = Found []"
  using assms by (simp add: airport_search_def Let_def)

theorem short_query_gives_empty_list_witness:
  "length (search_text host \<lparr>query_q = JStr '' a '', query_limit = JStr ''abc''\<rparr>) < 2 \<and>
   airport_search host \<lparr>query_q = JStr '' a '', query_limit = JStr ''abc''\<rparr> [aja, jfk] = Found []"
proof -
  have h: "length (search_text host \<lparr>query_q = JStr '' a '', query_limit = JStr ''abc''\<rparr>) < 2"
    by code_simp
  show ?thesis
    using short_query_gives_empty_list [OF h, of "[aja, jfk]"] h by simp
qed


section \<open>Airport search: the order of the results\<close>

lemma lower_char_cases:
  "(lower_char c = c \<and> \<not> (65 \<le> (of_char c :: nat) \<and> (of_char c :: nat) \<le> 90)) \<or>
   (65 \<le> (of_char c :: nat) \<and> (of_char c :: nat) \<le> 90 \<and>
    (of_char (lower_char c) :: nat) = of_char c + 32)"
  by (simp add: lower_char_def Let_def)

lemma lower_char_idem [simp]: "lower_char (lower_char c) = lower_char c"
  using lower_char_cases [of c] by (auto simp: lower_char_def [of "lower_char c"] Let_def)

lemma lower_char_percent [simp]: "(lower_char c = CHR ''%'') = (c = CHR ''%'')"
proof
  assume "lower_char c = CHR ''%''"
  then have "(of_char (lower_char c) :: nat) = 37" by simp
  with lower_char_cases [of c] have "lower_char c = c" by auto
  with \<open>lower_char c = CHR ''%''\<close> show "c = CHR ''%''" by simp
next
  assume "c = CHR ''%''"
  then show "lower_char c = CHR ''%''" by (simp add: lower_char_def)
qed

lemma lower_char_underscore [simp]: "(lower_char c = CHR ''_'') = (c = CHR ''_'')"
proof
  assume "lower_char c = CHR ''_''"
  then have "(of_char (lower_char c) :: nat) = 95" by simp
  with lower_char_cases [of c] have "lower_char c = c" by auto
  with \<open>lower_char c = CHR ''_''\<close> show "c = CHR ''_''" by simp
next
  assume "c = CHR ''_''"
  then show "lower_char c = CHR ''_''" by (simp add: lower_char_def)
qed




declare like.simps(2) [simp del]













end
